theory Spec2Isabelle
  imports Complex_Main
begin

section \<open>JavaScript numbers\<close>

text \<open>
  Every numeric value of the program is a JavaScript \<open>number\<close>. The model keeps the
  three special values of that type apart from the finite ones, so that a division by
  zero yields what the program yields (\<open>Infinity\<close>, \<open>-Infinity\<close> or \<open>NaN\<close>) and the
  special values propagate as they do at run time. Finite values are real numbers:
  rounding of the binary64 format is abstracted away, and so is the sign of zero (all
  divisors of the modelled code are list lengths or results of \<open>Math.hypot\<close>, which
  are never \<open>-0\<close>).
\<close>

datatype jsnum = Num real | PosInf | NegInf | NaN

instantiation jsnum :: uminus
begin
fun uminus_jsnum :: "jsnum \<Rightarrow> jsnum" where
  "uminus_jsnum (Num a) = Num (- a)"
| "uminus_jsnum PosInf = NegInf"
| "uminus_jsnum NegInf = PosInf"
| "uminus_jsnum NaN = NaN"
instance ..
end

instantiation jsnum :: plus
begin
fun plus_jsnum :: "jsnum \<Rightarrow> jsnum \<Rightarrow> jsnum" where
  "plus_jsnum (Num a) (Num b) = Num (a + b)"
| "plus_jsnum NaN _ = NaN"
| "plus_jsnum _ NaN = NaN"
| "plus_jsnum PosInf NegInf = NaN"
| "plus_jsnum NegInf PosInf = NaN"
| "plus_jsnum PosInf _ = PosInf"
| "plus_jsnum _ PosInf = PosInf"
| "plus_jsnum NegInf _ = NegInf"
| "plus_jsnum _ NegInf = NegInf"
instance ..
end

instantiation jsnum :: minus
begin
definition minus_jsnum :: "jsnum \<Rightarrow> jsnum \<Rightarrow> jsnum" where
  "minus_jsnum x y = x + (- y)"
instance ..
end

text \<open>The sign of an infinite product or quotient: \<open>True\<close> for a positive result.\<close>

definition inf_of_sign :: "bool \<Rightarrow> jsnum" where
  "inf_of_sign pos = (if pos then PosInf else NegInf)"

instantiation jsnum :: times
begin
fun times_jsnum :: "jsnum \<Rightarrow> jsnum \<Rightarrow> jsnum" where
  "times_jsnum (Num a) (Num b) = Num (a * b)"
| "times_jsnum NaN _ = NaN"
| "times_jsnum _ NaN = NaN"
| "times_jsnum PosInf (Num b) = (if b = 0 then NaN else inf_of_sign (0 < b))"
| "times_jsnum NegInf (Num b) = (if b = 0 then NaN else inf_of_sign (b < 0))"
| "times_jsnum (Num a) PosInf = (if a = 0 then NaN else inf_of_sign (0 < a))"
| "times_jsnum (Num a) NegInf = (if a = 0 then NaN else inf_of_sign (a < 0))"
| "times_jsnum PosInf PosInf = PosInf"
| "times_jsnum NegInf NegInf = PosInf"
| "times_jsnum PosInf NegInf = NegInf"
| "times_jsnum NegInf PosInf = NegInf"
instance ..
end

instantiation jsnum :: inverse
begin
fun divide_jsnum :: "jsnum \<Rightarrow> jsnum \<Rightarrow> jsnum" where
  "divide_jsnum (Num a) (Num b) =
     (if b = 0 then (if a = 0 then NaN else inf_of_sign (0 < a)) else Num (a / b))"
| "divide_jsnum NaN _ = NaN"
| "divide_jsnum _ NaN = NaN"
| "divide_jsnum (Num a) PosInf = Num 0"
| "divide_jsnum (Num a) NegInf = Num 0"
| "divide_jsnum PosInf (Num b) = inf_of_sign (0 \<le> b)"
| "divide_jsnum NegInf (Num b) = inf_of_sign (b < 0)"
| "divide_jsnum _ _ = NaN"
definition inverse_jsnum :: "jsnum \<Rightarrow> jsnum" where
  "inverse_jsnum x = divide (Num 1) x"
instance ..
end

text \<open>Comparisons: every comparison with \<open>NaN\<close> is false.\<close>

instantiation jsnum :: ord
begin
fun less_jsnum :: "jsnum \<Rightarrow> jsnum \<Rightarrow> bool" where
  "less_jsnum (Num a) (Num b) = (a < b)"
| "less_jsnum NaN _ = False"
| "less_jsnum _ NaN = False"
| "less_jsnum NegInf NegInf = False"
| "less_jsnum NegInf _ = True"
| "less_jsnum _ NegInf = False"
| "less_jsnum PosInf _ = False"
| "less_jsnum _ PosInf = True"
fun less_eq_jsnum :: "jsnum \<Rightarrow> jsnum \<Rightarrow> bool" where
  "less_eq_jsnum (Num a) (Num b) = (a \<le> b)"
| "less_eq_jsnum NaN _ = False"
| "less_eq_jsnum _ NaN = False"
| "less_eq_jsnum NegInf _ = True"
| "less_eq_jsnum _ NegInf = False"
| "less_eq_jsnum _ PosInf = True"
| "less_eq_jsnum PosInf _ = False"
instance ..
end

text \<open>\<open>Math.min\<close> and \<open>Math.max\<close>: \<open>NaN\<close> as soon as one argument is \<open>NaN\<close>.\<close>

definition math_min :: "jsnum \<Rightarrow> jsnum \<Rightarrow> jsnum" where
  "math_min x y = (if x = NaN \<or> y = NaN then NaN else if x < y then x else y)"

definition math_max :: "jsnum \<Rightarrow> jsnum \<Rightarrow> jsnum" where
  "math_max x y = (if x = NaN \<or> y = NaN then NaN else if x < y then y else x)"

text \<open>
  \<open>Math.hypot\<close> of two arguments: an infinite argument gives \<open>Infinity\<close> (even beside
  \<open>NaN\<close>), otherwise \<open>NaN\<close> propagates.
\<close>

fun math_hypot :: "jsnum \<Rightarrow> jsnum \<Rightarrow> jsnum" where
  "math_hypot (Num a) (Num b) = Num (sqrt (a\<^sup>2 + b\<^sup>2))"
| "math_hypot PosInf _ = PosInf"
| "math_hypot NegInf _ = PosInf"
| "math_hypot _ PosInf = PosInf"
| "math_hypot _ NegInf = PosInf"
| "math_hypot _ _ = NaN"

text \<open>
  The remainder operator \<open>%\<close>: the result takes the sign of the dividend (the quotient
  is truncated towards zero).
\<close>

definition trunc :: "real \<Rightarrow> real" where
  "trunc q = (if 0 \<le> q then of_int \<lfloor>q\<rfloor> else of_int \<lceil>q\<rceil>)"

fun js_rem :: "jsnum \<Rightarrow> jsnum \<Rightarrow> jsnum" where
  "js_rem (Num a) (Num b) = (if b = 0 then NaN else Num (a - b * trunc (a / b)))"
| "js_rem (Num a) PosInf = Num a"
| "js_rem (Num a) NegInf = Num a"
| "js_rem _ _ = NaN"


definition num_of_nat :: "nat \<Rightarrow> jsnum" where
  "num_of_nat n = Num (real n)"

definition is_finite :: "jsnum \<Rightarrow> bool" where
  "is_finite x = (case x of Num _ \<Rightarrow> True | _ \<Rightarrow> False)"

section \<open>Taxonomy and segments (types.ts)\<close>

text \<open>
  A \<open>Record<string, FlavorNode>\<close> is represented by its entries in the order in which
  \<open>Object.keys\<close> enumerates them; the keys of one object are pairwise distinct.
\<close>

datatype FlavorNode =
  FlavorNode (node_name: string) (node_description: string)
    (children: "(string \<times> FlavorNode) list option")

type_synonym FlavorWheelData = "(string \<times> FlavorNode) list"

record WheelSegment =
  id_seg :: string
  ring :: nat
  name :: string
  description :: string
  startAngle :: jsnum
  endAngle :: jsnum
  parentId :: "string option"
  categoryId :: string

section \<open>The flattener (wheelData.ts)\<close>

text \<open>
  The three nested \<open>forEach\<close> callbacks of \<open>flattenToSegments\<close>, innermost first. Each
  receives the element and its index; \<open>segments.push\<close> in source order is the order of
  the returned list.
\<close>

definition leafSegment ::
  "string \<Rightarrow> string \<Rightarrow> jsnum \<Rightarrow> jsnum \<Rightarrow> jsnum \<Rightarrow> nat \<times> string \<times> FlavorNode \<Rightarrow> WheelSegment" where
  "leafSegment catId subId b0 leafStep sign = (\<lambda>(k, leafId, leaf).
     let c0 = b0 + num_of_nat k * leafStep * sign;
         c1 = b0 + num_of_nat (k + 1) * leafStep * sign
     in \<lparr> id_seg = catId @ ''-'' @ subId @ ''-'' @ leafId, ring = 3,
          name = node_name leaf, description = node_description leaf,
          startAngle = c0, endAngle = c1,
          parentId = Some (catId @ ''-'' @ subId), categoryId = catId \<rparr>)"

definition subSegments ::
  "string \<Rightarrow> jsnum \<Rightarrow> jsnum \<Rightarrow> jsnum \<Rightarrow> nat \<times> string \<times> FlavorNode \<Rightarrow> WheelSegment list" where
  "subSegments catId a0 subStep sign = (\<lambda>(j, subId, sub).
     let b0 = a0 + num_of_nat j * subStep * sign;
         b1 = a0 + num_of_nat (j + 1) * subStep * sign
     in \<lparr> id_seg = catId @ ''-'' @ subId, ring = 2,
          name = node_name sub, description = node_description sub,
          startAngle = b0, endAngle = b1,
          parentId = Some catId, categoryId = catId \<rparr>
        # (case children sub of
             None \<Rightarrow> []
           | Some leaves \<Rightarrow>
               let leafStep = subStep / num_of_nat (length leaves)
               in map (leafSegment catId subId b0 leafStep sign) (enumerate 0 leaves)))"

definition catSegments ::
  "jsnum \<Rightarrow> jsnum \<Rightarrow> jsnum \<Rightarrow> nat \<times> string \<times> FlavorNode \<Rightarrow> WheelSegment list" where
  "catSegments startAngleDeg step sign = (\<lambda>(i, catId, cat).
     let a0 = startAngleDeg + num_of_nat i * step * sign;
         a1 = startAngleDeg + num_of_nat (i + 1) * step * sign
     in \<lparr> id_seg = catId, ring = 1,
          name = node_name cat, description = node_description cat,
          startAngle = a0, endAngle = a1,
          parentId = None, categoryId = catId \<rparr>
        # (case children cat of
             None \<Rightarrow> []
           | Some subs \<Rightarrow>
               let subStep = step / num_of_nat (length subs)
               in concat (map (subSegments catId a0 subStep sign) (enumerate 0 subs))))"

definition flattenToSegments :: "FlavorWheelData \<Rightarrow> jsnum \<Rightarrow> bool \<Rightarrow> WheelSegment list" where
  "flattenToSegments data startAngleDeg clockwise =
     (let total = Num 360;
          step = total / num_of_nat (length data);
          sign = (if clockwise then Num 1 else Num (- 1))
      in concat (map (catSegments startAngleDeg step sign) (enumerate 0 data)))"

definition buildWheelSegments :: "FlavorWheelData \<Rightarrow> WheelSegment list" where
  "buildWheelSegments data = flattenToSegments data (Num 0) True"


section \<open>Angle and label math (arc.ts, FlavorWheel.tsx)\<close>

definition midAngle :: "jsnum \<Rightarrow> jsnum \<Rightarrow> jsnum" where
  "midAngle startDeg endDeg = (startDeg + endDeg) / Num 2"

definition tangentialLabelRotation :: "jsnum \<Rightarrow> jsnum \<Rightarrow> jsnum" where
  "tangentialLabelRotation midDeg wheelRotation =
     (let alongArc = midDeg + Num 90;
          screenAngle = js_rem (alongArc + wheelRotation + Num 360) (Num 360);
          upsideDown = (Num 90 < screenAngle \<and> screenAngle < Num 270)
      in if upsideDown then alongArc + Num 180 else alongArc)"

text \<open>
  The position of an angle on the circle: its representative in \<open>[0, 360)\<close>. This is
  the normalisation the specification speaks of, not a function of the program.
\<close>

definition normalize360 :: "real \<Rightarrow> real" where
  "normalize360 a = a - 360 * of_int \<lfloor>a / 360\<rfloor>"

section \<open>The tooltip positioner (FlavorWheel.tsx)\<close>



section \<open>The gesture controller (FlavorWheel.tsx)\<close>

definition ZOOM_MIN :: jsnum where "ZOOM_MIN = Num 0.5"
definition ZOOM_MAX :: jsnum where "ZOOM_MAX = Num 3"
definition ZOOM_SENSITIVITY :: jsnum where "ZOOM_SENSITIVITY = Num 0.002"

text \<open>
  The component's state: the two \<open>useState\<close> cells and the two gesture references.
  \<open>zoomRef\<close> mirrors \<open>zoom\<close> at every render, so it is not a field of its own. The
  tooltip cell is written by the per-segment handlers only and is left out.
\<close>

record DragRef =
  startAngle_drag :: jsnum
  startRotation :: jsnum

record PinchRef =
  initialDistance :: jsnum
  initialZoom :: jsnum

record ViewState =
  rotation :: jsnum
  zoom :: jsnum
  dragRef :: "DragRef option"
  pinchRef :: "PinchRef option"

definition initialState :: ViewState where
  "initialState = \<lparr> rotation = Num 0, zoom = Num 1, dragRef = None, pinchRef = None \<rparr>"

text \<open>
  A pointer event is given by its button and by the value \<open>angleFromEvent\<close> computes
  for it (the pointer's polar angle around the wheel's centre, from \<open>Math.atan2\<close> and
  the element's bounding box).
\<close>

record PointerEvent =
  button :: int
  angleFromEvent :: jsnum

record Touch =
  clientX :: real
  clientY :: real

definition handlePointerDown :: "ViewState \<Rightarrow> PointerEvent \<Rightarrow> ViewState" where
  "handlePointerDown s e =
     (if button e \<noteq> 0 then s
      else s\<lparr> dragRef := Some \<lparr> startAngle_drag = angleFromEvent e,
                                 startRotation = rotation s \<rparr> \<rparr>)"

text \<open>
  The local variable \<open>delta\<close> of \<open>handlePointerMove\<close> after its three statements: the
  difference of the angles, then the two corrections, one after the other.
\<close>

definition dragDelta :: "jsnum \<Rightarrow> jsnum \<Rightarrow> jsnum" where
  "dragDelta currentAngle anchorAngle =
     (let delta = currentAngle - anchorAngle;
          delta = (if Num 180 < delta then delta - Num 360 else delta);
          delta = (if delta < Num (- 180) then delta + Num 360 else delta)
      in delta)"

definition handlePointerMove :: "ViewState \<Rightarrow> PointerEvent \<Rightarrow> ViewState" where
  "handlePointerMove s e =
     (case dragRef s of
        None \<Rightarrow> s
      | Some d \<Rightarrow>
          let currentAngle = angleFromEvent e;
              delta = dragDelta currentAngle (startAngle_drag d)
          in s\<lparr> rotation := startRotation d + delta \<rparr>)"

definition handlePointerUp :: "ViewState \<Rightarrow> ViewState" where
  "handlePointerUp s = s\<lparr> dragRef := None \<rparr>"

definition handleWheel :: "ViewState \<Rightarrow> jsnum \<Rightarrow> ViewState" where
  "handleWheel s deltaY =
     s\<lparr> zoom := math_min ZOOM_MAX (math_max ZOOM_MIN (zoom s - deltaY * ZOOM_SENSITIVITY)) \<rparr>"

text \<open>
  \<open>getTouchDistance\<close> reads \<open>touches[0]\<close> and \<open>touches[1]\<close>; with fewer than two touches
  the read of \<open>clientX\<close> throws (\<open>None\<close>). Both callers check the length first.
\<close>

fun getTouchDistance :: "Touch list \<Rightarrow> jsnum option" where
  "getTouchDistance (a # b # _) =
     Some (math_hypot (Num (clientX b) - Num (clientX a)) (Num (clientY b) - Num (clientY a)))"
| "getTouchDistance _ = None"

definition handleTouchStart :: "ViewState \<Rightarrow> Touch list \<Rightarrow> ViewState" where
  "handleTouchStart s touches =
     (if length touches = 2 then
        (case getTouchDistance touches of
           None \<Rightarrow> s
         | Some d \<Rightarrow> s\<lparr> pinchRef := Some \<lparr> initialDistance = d, initialZoom = zoom s \<rparr> \<rparr>)
      else s)"

definition handleTouchMove :: "ViewState \<Rightarrow> Touch list \<Rightarrow> ViewState" where
  "handleTouchMove s touches =
     (if length touches = 2 then
        (case pinchRef s of
           None \<Rightarrow> s
         | Some p \<Rightarrow>
             (case getTouchDistance touches of
                None \<Rightarrow> s
              | Some d \<Rightarrow>
                  let scale = d / initialDistance p;
                      newZoom = math_min ZOOM_MAX (math_max ZOOM_MIN (initialZoom p * scale))
                  in s\<lparr> zoom := newZoom \<rparr>))
      else s)"

definition handleTouchEndWithE :: "ViewState \<Rightarrow> Touch list \<Rightarrow> ViewState" where
  "handleTouchEndWithE s touches = (if length touches < 2 then s\<lparr> pinchRef := None \<rparr> else s)"

definition handleReset :: "ViewState \<Rightarrow> ViewState" where
  "handleReset s = s\<lparr> zoom := Num 1, rotation := Num 0 \<rparr>"

text \<open>
  The events the wheel listens to, with the handler each one is wired to. The values a
  browser puts into an event (\<open>deltaY\<close>, touch coordinates) are finite.
\<close>

datatype event =
    PointerDown PointerEvent
  | PointerMove PointerEvent
  | PointerUp
  | PointerLeave
  | Wheel real
  | TouchStart "Touch list"
  | TouchMove "Touch list"
  | TouchEnd "Touch list"
  | TouchCancel "Touch list"
  | Reset

fun handle :: "ViewState \<Rightarrow> event \<Rightarrow> ViewState" where
  "handle s (PointerDown e) = handlePointerDown s e"
| "handle s (PointerMove e) = handlePointerMove s e"
| "handle s PointerUp = handlePointerUp s"
| "handle s PointerLeave = handlePointerUp s"
| "handle s (Wheel deltaY) = handleWheel s (Num deltaY)"
| "handle s (TouchStart ts) = handleTouchStart s ts"
| "handle s (TouchMove ts) = handleTouchMove s ts"
| "handle s (TouchEnd ts) = handleTouchEndWithE s ts"
| "handle s (TouchCancel ts) = handleTouchEndWithE s ts"
| "handle s Reset = handleReset s"

definition run :: "ViewState \<Rightarrow> event list \<Rightarrow> ViewState" where
  "run s es = foldl handle s es"

section \<open>The fill resolver (colors.ts)\<close>

definition CATEGORY_BASE :: "(string \<times> string) list" where
  "CATEGORY_BASE =
     [(''vegetale'', ''#4a7c4a''),
      (''animale'', ''#8b6914''),
      (''floreale'', ''#b85c7a''),
      (''fruttato'', ''#c46838''),
      (''caldo'', ''#c9a227''),
      (''aromatico'', ''#6b6b9e''),
      (''chimico'', ''#5c6b6b'')]"

text \<open>
  \<open>parseInt(s, 16)\<close> reads the longest prefix of hexadecimal digits; without one the
  result is \<open>NaN\<close> (\<open>None\<close>). White space, a sign and a \<open>0x\<close> prefix, which \<open>parseInt\<close>
  accepts too, do not occur in the colours and are not modelled.
\<close>

definition hexDigit :: "char \<Rightarrow> nat option" where
  "hexDigit c =
     (let k = of_char c :: nat
      in if 48 \<le> k \<and> k \<le> 57 then Some (k - 48)
         else if 97 \<le> k \<and> k \<le> 102 then Some (k - 87)
         else if 65 \<le> k \<and> k \<le> 70 then Some (k - 55)
         else None)"

fun parseHexFrom :: "nat \<Rightarrow> string \<Rightarrow> nat" where
  "parseHexFrom acc [] = acc"
| "parseHexFrom acc (c # cs) =
     (case hexDigit c of None \<Rightarrow> acc | Some d \<Rightarrow> parseHexFrom (16 * acc + d) cs)"

definition parseInt16 :: "string \<Rightarrow> nat option" where
  "parseInt16 s =
     (case s of
        [] \<Rightarrow> None
      | c # cs \<Rightarrow> (case hexDigit c of None \<Rightarrow> None | Some d \<Rightarrow> Some (parseHexFrom d cs)))"

text \<open>\<open>Number.prototype.toString(16)\<close> of an integer.\<close>

definition hexChar :: "nat \<Rightarrow> char" where
  "hexChar d = ''0123456789abcdef'' ! d"

function hexOfNat :: "nat \<Rightarrow> string" where
  "hexOfNat n = (if n < 16 then [hexChar n] else hexOfNat (n div 16) @ [hexChar (n mod 16)])"
  by pat_completeness auto
termination
  by (relation "measure id") auto

declare hexOfNat.simps [simp del]

definition toString16 :: "int \<Rightarrow> string" where
  "toString16 i = (if i < 0 then CHR ''-'' # hexOfNat (nat (- i)) else hexOfNat (nat i))"

text \<open>\<open>Math.round\<close>: the nearest integer, a tie going up.\<close>

definition math_round :: "real \<Rightarrow> int" where
  "math_round v = \<lfloor>v + 1 / 2\<rfloor>"

text \<open>
  One colour channel of \<open>lighten\<close>: \<open>(n >> shift) & 0xff\<close>, moved towards 255 by
  \<open>amount\<close>. The bitwise operators read \<open>NaN\<close> as 0. No division occurs in \<open>lighten\<close>,
  so all its numbers are finite and are reals here.
\<close>

definition channel :: "nat option \<Rightarrow> nat \<Rightarrow> nat" where
  "channel n shift = (case n of None \<Rightarrow> 0 | Some v \<Rightarrow> (v div 2 ^ shift) mod 256)"

definition lightenChannel :: "nat option \<Rightarrow> nat \<Rightarrow> real \<Rightarrow> real" where
  "lightenChannel n shift amount =
     min 255 (real (channel n shift) + (255 - real (channel n shift)) * amount)"

text \<open>
  What a property lookup on the palette can give: a string, or a value that is not a
  string. The palette is a plain object, so besides its own seven properties the lookup
  finds the properties that every object inherits from \<open>Object.prototype\<close>:
  eleven functions and, under \<open>__proto__\<close>, the prototype object itself.
\<close>

datatype js_value = Str string | Inherited

datatype js_error = TypeError

definition OBJECT_PROTOTYPE_KEYS :: "string list" where
  "OBJECT_PROTOTYPE_KEYS =
     [''constructor'', ''__defineGetter__'', ''__defineSetter__'', ''hasOwnProperty'',
      ''__lookupGetter__'', ''__lookupSetter__'', ''isPrototypeOf'',
      ''propertyIsEnumerable'', ''toString'', ''valueOf'', ''__proto__'',
      ''toLocaleString'']"

text \<open>\<open>CATEGORY_BASE[categoryId]\<close>; \<open>None\<close> is \<open>undefined\<close>.\<close>

definition lookupCategoryBase :: "string \<Rightarrow> js_value option" where
  "lookupCategoryBase k =
     (case map_of CATEGORY_BASE k of
        Some c \<Rightarrow> Some (Str c)
      | None \<Rightarrow> if k \<in> set OBJECT_PROTOTYPE_KEYS then Some Inherited else None)"

text \<open>
  \<open>lighten\<close>. On a value that is not a string, \<open>hex.slice\<close> is \<open>undefined\<close> (neither a
  function nor \<open>Object.prototype\<close> has a property \<open>slice\<close>) and the call throws a
  \<open>TypeError\<close>.
\<close>

definition lighten :: "js_value \<Rightarrow> real \<Rightarrow> js_error + js_value" where
  "lighten hex amount =
     (case hex of
        Inherited \<Rightarrow> Inl TypeError
      | Str h \<Rightarrow>
          (let n = parseInt16 (drop 1 h);
               r = lightenChannel n 16 amount;
               g = lightenChannel n 8 amount;
               b = lightenChannel n 0 amount
           in Inr (Str (CHR ''#'' #
                drop 1 (toString16 (0x1000000 + math_round r * 0x10000 + math_round g * 0x100
                                    + math_round b))))))"

text \<open>
  \<open>getSegmentFill\<close> (the parameter is \<open>category\<close> here, \<open>categoryId\<close> being a field of
  the segments). \<open>??\<close> replaces only \<open>undefined\<close> and \<open>null\<close>, so an inherited value
  becomes the base colour: ring 1 returns it as it is, rings 2 and 3 pass it to
  \<open>lighten\<close>.
\<close>

definition getSegmentFill :: "string \<Rightarrow> nat \<Rightarrow> js_error + js_value" where
  "getSegmentFill category r =
     (let base = (case lookupCategoryBase category of Some v \<Rightarrow> v | None \<Rightarrow> Str ''#888'')
      in if r = 1 then Inr base
         else if r = 2 then lighten base 0.2
         else lighten base 0.38)"

text \<open>
  What a \<open>#rrggbb\<close> string is, and the three channels it denotes. A three-digit colour
  \<open>#rgb\<close> denotes \<open>#rrggbb\<close> with every digit doubled.
\<close>

definition isHex6 :: "string \<Rightarrow> bool" where
  "isHex6 s = (length s = 7 \<and> take 1 s = ''#'' \<and> list_all (\<lambda>c. hexDigit c \<noteq> None) (drop 1 s))"

definition rgbOf :: "string \<Rightarrow> nat \<times> nat \<times> nat" where
  "rgbOf s =
     (let n = parseInt16 (drop 1 s) in (channel n 16, channel n 8, channel n 0))"

section \<open>Notions of the specification\<close>

text \<open>
  The definitions of this section are not code of the program: they name what the
  claims speak of, in executable form.
\<close>

text \<open>The taxonomy of the specification's end-to-end scenario.\<close>

definition scenarioData :: FlavorWheelData where
  "scenarioData =
     [(''a'', FlavorNode ''A'' ''d'' (Some [(''x'', FlavorNode ''X'' ''dx'' None)])),
      (''b'', FlavorNode ''B'' ''d2'' None)]"

text \<open>
  The zoom is within its bounds. A touch-start is coincident when its two touches are
  on one point. A pinch baseline is sound when its distance is positive and its zoom
  is within the bounds.
\<close>

definition zoomInRange :: "jsnum \<Rightarrow> bool" where
  "zoomInRange z = (ZOOM_MIN \<le> z \<and> z \<le> ZOOM_MAX)"

fun coincidentStart :: "event \<Rightarrow> bool" where
  "coincidentStart (TouchStart [a, b]) = (clientX a = clientX b \<and> clientY a = clientY b)"
| "coincidentStart _ = False"

definition soundBaseline :: "ViewState \<Rightarrow> bool" where
  "soundBaseline s =
     (case pinchRef s of
        None \<Rightarrow> True
      | Some p \<Rightarrow>
          (case initialDistance p of Num d \<Rightarrow> 0 < d | _ \<Rightarrow> False)
          \<and> zoomInRange (initialZoom p))"


text \<open>Every channel of \<open>c\<close> is at least the channel of \<open>base\<close> and at most 255.\<close>

definition lighterThan :: "string \<Rightarrow> string \<Rightarrow> bool" where
  "lighterThan c base =
     (case (rgbOf c, rgbOf base) of
        ((r, g, b), (r0, g0, b0)) \<Rightarrow>
          r0 \<le> r \<and> r \<le> 255 \<and> g0 \<le> g \<and> g \<le> 255 \<and> b0 \<le> b \<and> b \<le> 255)"










section \<open>Evaluation of the fill resolver\<close>

lemmas fill_eval =
  getSegmentFill_def lookupCategoryBase_def CATEGORY_BASE_def lighten_def parseInt16_def
  hexDigit_def lightenChannel_def channel_def math_round_def toString16_def Let_def

lemma hexOfNat_numeral:
  "hexOfNat (numeral k) =
     (if (numeral k :: nat) < 16 then [hexChar (numeral k)]
      else hexOfNat (numeral k div 16) @ [hexChar (numeral k mod 16)])"
  by (rule hexOfNat.simps)

lemma hexOfNat_one: "hexOfNat (Suc 0) = ''1''"
  by (simp add: hexOfNat.simps [of "Suc 0"] hexChar_def)

lemma fill_table:
  "getSegmentFill ''vegetale'' 1 = Inr (Str ''#4a7c4a'')"
  "getSegmentFill ''vegetale'' 2 = Inr (Str ''#6e966e'')"
  "getSegmentFill ''vegetale'' 3 = Inr (Str ''#8fae8f'')"
  "getSegmentFill ''animale'' 1 = Inr (Str ''#8b6914'')"
  "getSegmentFill ''animale'' 2 = Inr (Str ''#a28743'')"
  "getSegmentFill ''animale'' 3 = Inr (Str ''#b7a26d'')"
  "getSegmentFill ''floreale'' 1 = Inr (Str ''#b85c7a'')"
  "getSegmentFill ''floreale'' 2 = Inr (Str ''#c67d95'')"
  "getSegmentFill ''floreale'' 3 = Inr (Str ''#d39aad'')"
  "getSegmentFill ''fruttato'' 1 = Inr (Str ''#c46838'')"
  "getSegmentFill ''fruttato'' 2 = Inr (Str ''#d08660'')"
  "getSegmentFill ''fruttato'' 3 = Inr (Str ''#daa184'')"
  "getSegmentFill ''caldo'' 1 = Inr (Str ''#c9a227'')"
  "getSegmentFill ''caldo'' 2 = Inr (Str ''#d4b552'')"
  "getSegmentFill ''caldo'' 3 = Inr (Str ''#dec579'')"
  "getSegmentFill ''aromatico'' 1 = Inr (Str ''#6b6b9e'')"
  "getSegmentFill ''aromatico'' 2 = Inr (Str ''#8989b1'')"
  "getSegmentFill ''aromatico'' 3 = Inr (Str ''#a3a3c3'')"
  "getSegmentFill ''chimico'' 1 = Inr (Str ''#5c6b6b'')"
  "getSegmentFill ''chimico'' 2 = Inr (Str ''#7d8989'')"
  "getSegmentFill ''chimico'' 3 = Inr (Str ''#9aa3a3'')"
  by (simp_all add: fill_eval hexOfNat_numeral hexOfNat_one hexChar_def)

lemma hex_table:
  "isHex6 ''#4a7c4a''" "isHex6 ''#6e966e''" "isHex6 ''#8fae8f''"
  "isHex6 ''#8b6914''" "isHex6 ''#a28743''" "isHex6 ''#b7a26d''"
  "isHex6 ''#b85c7a''" "isHex6 ''#c67d95''" "isHex6 ''#d39aad''"
  "isHex6 ''#c46838''" "isHex6 ''#d08660''" "isHex6 ''#daa184''"
  "isHex6 ''#c9a227''" "isHex6 ''#d4b552''" "isHex6 ''#dec579''"
  "isHex6 ''#6b6b9e''" "isHex6 ''#8989b1''" "isHex6 ''#a3a3c3''"
  "isHex6 ''#5c6b6b''" "isHex6 ''#7d8989''" "isHex6 ''#9aa3a3''"
  by (simp_all add: isHex6_def hexDigit_def)

lemma lighter_table:
  "lighterThan ''#4a7c4a'' ''#4a7c4a''" "lighterThan ''#6e966e'' ''#4a7c4a''"
  "lighterThan ''#8fae8f'' ''#4a7c4a''"
  "lighterThan ''#8b6914'' ''#8b6914''" "lighterThan ''#a28743'' ''#8b6914''"
  "lighterThan ''#b7a26d'' ''#8b6914''"
  "lighterThan ''#b85c7a'' ''#b85c7a''" "lighterThan ''#c67d95'' ''#b85c7a''"
  "lighterThan ''#d39aad'' ''#b85c7a''"
  "lighterThan ''#c46838'' ''#c46838''" "lighterThan ''#d08660'' ''#c46838''"
  "lighterThan ''#daa184'' ''#c46838''"
  "lighterThan ''#c9a227'' ''#c9a227''" "lighterThan ''#d4b552'' ''#c9a227''"
  "lighterThan ''#dec579'' ''#c9a227''"
  "lighterThan ''#6b6b9e'' ''#6b6b9e''" "lighterThan ''#8989b1'' ''#6b6b9e''"
  "lighterThan ''#a3a3c3'' ''#6b6b9e''"
  "lighterThan ''#5c6b6b'' ''#5c6b6b''" "lighterThan ''#7d8989'' ''#5c6b6b''"
  "lighterThan ''#9aa3a3'' ''#5c6b6b''"
  by (simp_all add: lighterThan_def rgbOf_def parseInt16_def hexDigit_def channel_def)

lemma fill_known:
  assumes "category \<in> fst ` set CATEGORY_BASE" and "r = 1 \<or> r = 2 \<or> r = 3"
  shows "\<exists>c c1. getSegmentFill category r = Inr (Str c)
           \<and> getSegmentFill category 1 = Inr (Str c1)
           \<and> isHex6 c \<and> lighterThan c c1"
proof -
  from assms(1) have "category = ''vegetale'' \<or> category = ''animale''
    \<or> category = ''floreale'' \<or> category = ''fruttato'' \<or> category = ''caldo''
    \<or> category = ''aromatico'' \<or> category = ''chimico''"
    unfolding CATEGORY_BASE_def by simp
  then show ?thesis
    using assms(2)
    by (elim disjE)
      (simp_all only: fill_table hex_table lighter_table simp_thms sum.inject js_value.inject
        ex_simps simp_thms)
qed

text \<open>
  A name inherited from \<open>Object.prototype\<close> is not an unknown category to the code:
  the lookup yields a function, which ring 1 returns as the fill and on which rings 2
  and 3 throw.
\<close>

lemma fill_inherited:
  "getSegmentFill ''constructor'' 1 = Inr Inherited"
  "getSegmentFill ''constructor'' 2 = Inl TypeError"
  "getSegmentFill ''toString'' 3 = Inl TypeError"
  "getSegmentFill ''__proto__'' 1 = Inr Inherited"
  by (simp_all add: getSegmentFill_def lookupCategoryBase_def CATEGORY_BASE_def
      OBJECT_PROTOTYPE_KEYS_def lighten_def)

text \<open>
  Claim C10, as amended. For each of the seven categories of the palette and each ring
  1, 2, 3, \<open>getSegmentFill\<close> returns a seven-character \<open>#rrggbb\<close> string whose
  red, green and blue channels are at least those of the category's ring-1 colour and
  at most 255. For a category that is neither in the palette nor the name of a property
  inherited from \<open>Object.prototype\<close>, ring 1 gets the fallback \<open>#888\<close>.
\<close>

theorem fill_palette:
  "(category \<in> fst ` set CATEGORY_BASE \<and> (r = 1 \<or> r = 2 \<or> r = 3) \<longrightarrow>
      (\<exists>c c1. getSegmentFill category r = Inr (Str c)
         \<and> getSegmentFill category 1 = Inr (Str c1)
         \<and> isHex6 c \<and> lighterThan c c1))
   \<and> (category \<notin> fst ` set CATEGORY_BASE \<and> category \<notin> set OBJECT_PROTOTYPE_KEYS \<longrightarrow>
        getSegmentFill category 1 = Inr (Str ''#888''))"
proof (intro conjI impI)
  assume "category \<notin> fst ` set CATEGORY_BASE \<and> category \<notin> set OBJECT_PROTOTYPE_KEYS"
  then have "map_of CATEGORY_BASE category = None" "category \<notin> set OBJECT_PROTOTYPE_KEYS"
    by (simp_all add: map_of_eq_None_iff)
  then show "getSegmentFill category 1 = Inr (Str ''#888'')"
    by (simp add: getSegmentFill_def lookupCategoryBase_def)
next
  assume "category \<in> fst ` set CATEGORY_BASE \<and> (r = 1 \<or> r = 2 \<or> r = 3)"
  then show "\<exists>c c1. getSegmentFill category r = Inr (Str c)
         \<and> getSegmentFill category 1 = Inr (Str c1)
         \<and> isHex6 c \<and> lighterThan c c1"
    using fill_known by blast
qed

text \<open>The amended claim C10 at the category \<open>caldo\<close>, ring 3, and at an unknown category.\<close>

theorem fill_palette_witness:
  "(\<exists>c c1. getSegmentFill ''caldo'' 3 = Inr (Str c)
      \<and> getSegmentFill ''caldo'' 1 = Inr (Str c1) \<and> isHex6 c \<and> lighterThan c c1)
   \<and> getSegmentFill ''zzz'' 1 = Inr (Str ''#888'')"
  using fill_palette [of "''caldo''" 3] fill_palette [of "''zzz''" 1]
  by (simp add: CATEGORY_BASE_def OBJECT_PROTOTYPE_KEYS_def)

text \<open>
  Claim C10 as stated fails for an unknown category: at ring 1 the result is the
  four-character fallback \<open>#888\<close>, not a \<open>#rrggbb\<close> string.
\<close>

theorem fill_fallback_short:
  "getSegmentFill ''zzz'' 1 = Inr (Str ''#888'') \<and> \<not> isHex6 ''#888''"
  by (simp add: getSegmentFill_def lookupCategoryBase_def CATEGORY_BASE_def
      OBJECT_PROTOTYPE_KEYS_def isHex6_def)

section \<open>The end-to-end scenario\<close>

text \<open>
  Claim C6. The scenario's taxonomy, flattened from 0 degrees clockwise, gives the ring-1
  segment \<open>a\<close> on [0, 180], its only child \<open>x\<close> (ring 2, category \<open>a\<close>, parent \<open>a\<close>) on
  the same span [0, 180], and the ring-1 segment \<open>b\<close> on [180, 360].
\<close>

theorem scenario_segments:
  "buildWheelSegments scenarioData =
     [\<lparr> id_seg = ''a'', ring = 1, name = ''A'', description = ''d'',
        startAngle = Num 0, endAngle = Num 180, parentId = None, categoryId = ''a'' \<rparr>,
      \<lparr> id_seg = ''a-x'', ring = 2, name = ''X'', description = ''dx'',
        startAngle = Num 0, endAngle = Num 180, parentId = Some ''a'', categoryId = ''a'' \<rparr>,
      \<lparr> id_seg = ''b'', ring = 1, name = ''B'', description = ''d2'',
        startAngle = Num 180, endAngle = Num 360, parentId = None, categoryId = ''b'' \<rparr>]"
  by (simp add: buildWheelSegments_def flattenToSegments_def scenarioData_def catSegments_def
      subSegments_def num_of_nat_def Let_def)

section \<open>Label rotation\<close>

lemma midAngle_Num: "midAngle (Num a) (Num b) = Num ((a + b) / 2)"
  by (simp add: midAngle_def)

text \<open>
  Claim C2 does not hold of the code. Four drags of half a turn anticlockwise, each from
  the bottom of the wheel (180 degrees) to its top (0 degrees), leave the rotation at
  \<open>-720\<close>. For a segment from 0 to 180 degrees (middle 90, tangent 180) the label is
  then left at 180: \<open>(180 - 720 + 360) % 360\<close> is \<open>-180\<close>, which is not between 90 and
  270. On screen the label stands at 180 degrees, upside down.
\<close>

theorem label_upside_down:
  "rotation (run initialState
      (concat (replicate 4
         [PointerDown \<lparr> button = 0, angleFromEvent = Num 180 \<rparr>,
          PointerMove \<lparr> button = 0, angleFromEvent = Num 0 \<rparr>,
          PointerUp]))) = Num (- 720)
   \<and> midAngle (Num 0) (Num 180) = Num 90
   \<and> tangentialLabelRotation (Num 90) (Num (- 720)) = Num 180
   \<and> normalize360 (180 + (- 720)) = 180"
proof -
  have "replicate 4 x = [x, x, x, x]" for x :: "event list"
    by (simp add: numeral_eq_Suc)
  then have "rotation (run initialState
      (concat (replicate 4
         [PointerDown \<lparr> button = 0, angleFromEvent = Num 180 \<rparr>,
          PointerMove \<lparr> button = 0, angleFromEvent = Num 0 \<rparr>,
          PointerUp]))) = Num (- 720)"
    by (simp add: run_def initialState_def handlePointerDown_def handlePointerMove_def
        handlePointerUp_def dragDelta_def minus_jsnum_def Let_def)
  moreover have "tangentialLabelRotation (Num 90) (Num (- 720)) = Num 180"
    by (simp add: tangentialLabelRotation_def trunc_def Let_def ceiling_def)
  moreover have "normalize360 (180 + (- 720)) = 180"
    by (simp add: normalize360_def)
  ultimately show ?thesis by (simp add: midAngle_Num)
qed

lemma normalize360_shift:
  assumes "0 \<le> y" and "y < 360"
  shows "normalize360 (360 * of_int k + y) = y"
proof -
  have "\<lfloor>(360 * of_int k + y) / 360\<rfloor> = k"
  proof (rule floor_unique)
    show "of_int k \<le> (360 * of_int k + y) / 360" using assms(1) by simp
    show "(360 * of_int k + y) / 360 < of_int k + 1" using assms(2) by simp
  qed
  then show ?thesis by (simp add: normalize360_def)
qed

text \<open>
  What does hold of the label rotation: as long as \<open>midDeg + wheelRotation\<close> is at
  least \<open>-450\<close> (the sum under \<open>%\<close> is not negative), the label is upright on screen.
\<close>

lemma label_upright_from_minus_450:
  assumes "- 450 \<le> m + w"
  shows "\<exists>r. tangentialLabelRotation (Num m) (Num w) = Num r
           \<and> \<not> (90 < normalize360 (r + w) \<and> normalize360 (r + w) < 270)"
proof -
  define x where "x = m + 90 + w + 360"
  define q where "q = \<lfloor>x / 360\<rfloor>"
  define sa where "sa = x - 360 * of_int q"
  have x0: "0 \<le> x" using assms by (simp add: x_def)
  then have "trunc (x / 360) = of_int q" by (simp add: trunc_def q_def)
  then have rem: "js_rem (Num m + Num 90 + Num w + Num 360) (Num 360) = Num sa"
    by (simp add: x_def sa_def)
  have sa0: "0 \<le> sa" and sa1: "sa < 360"
    unfolding sa_def q_def by linarith+
  have xq: "x = 360 * of_int q + sa" by (simp add: sa_def)
  show ?thesis
  proof (cases "90 < sa \<and> sa < 270")
    case True
    then have r: "tangentialLabelRotation (Num m) (Num w) = Num (m + 90 + 180)"
      using rem by (simp add: tangentialLabelRotation_def Let_def)
    have sum: "m + 90 + 180 + w = x - 180" by (simp add: x_def)
    have "\<not> (90 < normalize360 (x - 180) \<and> normalize360 (x - 180) < 270)"
    proof (cases "180 \<le> sa")
      case True
      have e: "x - 180 = 360 * of_int q + (sa - 180)" using xq by simp
      have "normalize360 (x - 180) = sa - 180"
        unfolding e using True sa1 by (intro normalize360_shift) simp_all
      then show ?thesis using \<open>90 < sa \<and> sa < 270\<close> by simp
    next
      case False
      have e: "x - 180 = 360 * of_int (q - 1) + (sa + 180)" using xq by simp
      have "normalize360 (x - 180) = sa + 180"
        unfolding e using False sa0 by (intro normalize360_shift) simp_all
      then show ?thesis using \<open>90 < sa \<and> sa < 270\<close> by simp
    qed
    with r sum show ?thesis by (metis)
  next
    case False
    then have r: "tangentialLabelRotation (Num m) (Num w) = Num (m + 90)"
      using rem by (auto simp add: tangentialLabelRotation_def Let_def)
    have sum: "m + 90 + w = 360 * of_int (q - 1) + sa" using xq by (simp add: x_def)
    have "normalize360 (m + 90 + w) = sa"
      unfolding sum using sa0 sa1 by (rule normalize360_shift)
    with False have "\<not> (90 < normalize360 (m + 90 + w) \<and> normalize360 (m + 90 + w) < 270)"
      by simp
    with r show ?thesis by blast
  qed
qed

section \<open>The gesture controller\<close>

lemma dragDelta_Num:
  "dragDelta (Num a1) (Num a0) =
     Num (if 180 < a1 - a0 then a1 - a0 - 360
          else if a1 - a0 < - 180 then a1 - a0 + 360 else a1 - a0)"
  by (simp add: dragDelta_def minus_jsnum_def Let_def)

text \<open>
  Claim C3, as amended. A drag that starts at rotation \<open>r0\<close> with the pointer at angle
  \<open>a0\<close> and moves the pointer to angle \<open>a1\<close> (both in [0, 360)) sets the rotation to
  \<open>r0 + d\<close>, where \<open>d\<close> is \<open>a1 - a0\<close>, moved by 360 once if needed, and lies in the closed
  interval [-180, 180]; when \<open>|a1 - a0| < 180\<close> the rotation is \<open>r0 + (a1 - a0)\<close>. The
  delta is fixed in every case: a difference of exactly -180 stays -180, one of exactly
  180 stays 180, a difference above 180 loses 360 and one below -180 gains 360.
\<close>

theorem drag_rotation:
  assumes "0 \<le> a0" "a0 < 360" "0 \<le> a1" "a1 < 360" and "rotation s = Num r0"
  shows "\<exists>d. rotation (handle (handle s (PointerDown \<lparr> button = 0, angleFromEvent = Num a0 \<rparr>))
                         (PointerMove \<lparr> button = b, angleFromEvent = Num a1 \<rparr>)) = Num (r0 + d)
           \<and> dragDelta (Num a1) (Num a0) = Num d
           \<and> - 180 \<le> d \<and> d \<le> 180
           \<and> (d = a1 - a0 \<or> d = a1 - a0 - 360 \<or> d = a1 - a0 + 360)
           \<and> (\<bar>a1 - a0\<bar> < 180 \<longrightarrow> d = a1 - a0)
           \<and> (a1 - a0 = - 180 \<longrightarrow> d = - 180)
           \<and> (a1 - a0 = 180 \<longrightarrow> d = 180)
           \<and> (180 < a1 - a0 \<longrightarrow> d = a1 - a0 - 360)
           \<and> (a1 - a0 < - 180 \<longrightarrow> d = a1 - a0 + 360)"
proof -
  define d where "d = (if 180 < a1 - a0 then a1 - a0 - 360
                       else if a1 - a0 < - 180 then a1 - a0 + 360 else a1 - a0)"
  have delta: "dragDelta (Num a1) (Num a0) = Num d"
    by (simp add: dragDelta_Num d_def)
  have rot: "rotation (handle (handle s (PointerDown \<lparr> button = 0, angleFromEvent = Num a0 \<rparr>))
                         (PointerMove \<lparr> button = b, angleFromEvent = Num a1 \<rparr>)) = Num (r0 + d)"
    using assms(5) by (simp add: handlePointerDown_def handlePointerMove_def delta)
  have range: "- 180 \<le> d \<and> d \<le> 180"
    using assms(1-4) by (simp add: d_def)
  have shape: "d = a1 - a0 \<or> d = a1 - a0 - 360 \<or> d = a1 - a0 + 360"
    by (simp add: d_def)
  have near: "\<bar>a1 - a0\<bar> < 180 \<longrightarrow> d = a1 - a0"
    by (simp add: d_def)
  have low: "a1 - a0 = - 180 \<longrightarrow> d = - 180"
    by (simp add: d_def)
  have high: "a1 - a0 = 180 \<longrightarrow> d = 180"
    by (simp add: d_def)
  have over: "180 < a1 - a0 \<longrightarrow> d = a1 - a0 - 360"
    by (simp add: d_def)
  have under: "a1 - a0 < - 180 \<longrightarrow> d = a1 - a0 + 360"
    by (simp add: d_def)
  from rot delta range shape near low high over under show ?thesis by blast
qed

text \<open>
  The amended claim C3 on the move across the 0/360 boundary, from 350 to 10 degrees
  (the delta is +20), and on the two half turns, from 180 to 0 degrees (the delta is
  -180) and from 0 to 180 degrees (the delta is 180).
\<close>

theorem drag_rotation_witness:
  "rotation (handle (handle initialState (PointerDown \<lparr> button = 0, angleFromEvent = Num 350 \<rparr>))
                    (PointerMove \<lparr> button = 0, angleFromEvent = Num 10 \<rparr>)) = Num 20
   \<and> dragDelta (Num 10) (Num 350) = Num 20
   \<and> dragDelta (Num 0) (Num 180) = Num (- 180)
   \<and> dragDelta (Num 180) (Num 0) = Num 180"
  using drag_rotation [of 350 10 initialState 0 0] drag_rotation [of 180 0 initialState 0 0]
    drag_rotation [of 0 180 initialState 0 0]
  by (auto simp add: initialState_def)

text \<open>
  Claim C3 as stated fails on the boundary: from 180 to 0 degrees the delta stays \<open>-180\<close>,
  which is outside the half-open interval (-180, 180].
\<close>

theorem drag_delta_boundary:
  "\<not> (Num (- 180) < dragDelta (Num 0) (Num 180) \<and> dragDelta (Num 0) (Num 180) \<le> Num 180)"
  by (simp add: dragDelta_def minus_jsnum_def)

text \<open>
  Claim C4 does not hold of the code. A pinch that starts with both touches on one point
  records the baseline distance 0; a move with the touches still on one point divides
  0 by 0, and \<open>NaN\<close> passes through \<open>Math.max\<close> and \<open>Math.min\<close> into the zoom.
\<close>

theorem pinch_zoom_nan:
  "zoom (run initialState
      [TouchStart [\<lparr> clientX = 100, clientY = 100 \<rparr>, \<lparr> clientX = 100, clientY = 100 \<rparr>],
       TouchMove [\<lparr> clientX = 100, clientY = 100 \<rparr>, \<lparr> clientX = 100, clientY = 100 \<rparr>]]) = NaN"
  by (simp add: run_def initialState_def handleTouchStart_def handleTouchMove_def
      minus_jsnum_def math_min_def math_max_def ZOOM_MIN_def ZOOM_MAX_def)

text \<open>
  Claim C5 does not hold of the code: the pinch ratio has no guard. With the baseline
  distance 0 the ratio is \<open>NaN\<close> when the touches still coincide (and so is the zoom), and
  \<open>Infinity\<close> when they have moved apart (the zoom is then clamped to 3); it is never
  replaced by 1.
\<close>

theorem pinch_zero_baseline:
  "handleTouchStart initialState
       [\<lparr> clientX = 7, clientY = 9 \<rparr>, \<lparr> clientX = 7, clientY = 9 \<rparr>]
     = initialState\<lparr> pinchRef := Some \<lparr> initialDistance = Num 0, initialZoom = Num 1 \<rparr> \<rparr>
   \<and> zoom (handleTouchMove
             (initialState\<lparr> pinchRef := Some \<lparr> initialDistance = Num 0, initialZoom = Num 1 \<rparr> \<rparr>)
             [\<lparr> clientX = 7, clientY = 9 \<rparr>, \<lparr> clientX = 7, clientY = 9 \<rparr>]) = NaN
   \<and> zoom (handleTouchMove
             (initialState\<lparr> pinchRef := Some \<lparr> initialDistance = Num 0, initialZoom = Num 1 \<rparr> \<rparr>)
             [\<lparr> clientX = 7, clientY = 9 \<rparr>, \<lparr> clientX = 10, clientY = 13 \<rparr>]) = Num 3"
  by (simp add: initialState_def handleTouchStart_def handleTouchMove_def
      minus_jsnum_def math_min_def math_max_def ZOOM_MIN_def ZOOM_MAX_def inf_of_sign_def)

lemma clamp_in_range: "zoomInRange (math_min ZOOM_MAX (math_max ZOOM_MIN (Num v)))"
  by (simp add: zoomInRange_def math_min_def math_max_def ZOOM_MIN_def ZOOM_MAX_def)

lemma zoomInRange_Num: "zoomInRange z \<Longrightarrow> \<exists>v. z = Num v"
  by (cases z) (simp_all add: zoomInRange_def ZOOM_MIN_def ZOOM_MAX_def)

lemma touch_distance_pos:
  assumes "clientX a \<noteq> clientX b \<or> clientY a \<noteq> clientY b"
  shows "\<exists>d. getTouchDistance [a, b] = Some (Num d) \<and> 0 < d"
proof -
  have "clientX b - clientX a \<noteq> 0 \<or> clientY b - clientY a \<noteq> 0"
    using assms by auto
  then have "0 < (clientX b - clientX a)\<^sup>2 + (clientY b - clientY a)\<^sup>2"
    by (metis sum_power2_gt_zero_iff)
  then show ?thesis by (simp add: minus_jsnum_def)
qed

lemma touch_distance_finite:
  "length ts = 2 \<Longrightarrow> \<exists>d. getTouchDistance ts = Some (Num d) \<and> 0 \<le> d"
  by (cases ts rule: getTouchDistance.cases) (simp_all add: minus_jsnum_def)

text \<open>
  What does hold of the zoom: it stays within its bounds, and the pinch baseline stays
  sound, under every event other than a coincident touch-start.
\<close>

lemma handle_keeps_zoom:
  assumes "zoomInRange (zoom s)" and "soundBaseline s" and "\<not> coincidentStart ev"
  shows "zoomInRange (zoom (handle s ev)) \<and> soundBaseline (handle s ev)"
proof (cases ev)
  case (PointerDown e)
  with assms show ?thesis by (simp add: handlePointerDown_def soundBaseline_def)
next
  case (PointerMove e)
  with assms show ?thesis
    by (cases "dragRef s") (simp_all add: handlePointerMove_def soundBaseline_def Let_def)
next
  case PointerUp
  with assms show ?thesis by (simp add: handlePointerUp_def soundBaseline_def)
next
  case PointerLeave
  with assms show ?thesis by (simp add: handlePointerUp_def soundBaseline_def)
next
  case (Wheel deltaY)
  obtain v where v: "zoom s = Num v" using zoomInRange_Num [OF assms(1)] by blast
  have "zoom (handle s ev)
          = math_min ZOOM_MAX (math_max ZOOM_MIN (Num (v - deltaY * 0.002)))"
    by (simp add: Wheel handleWheel_def v ZOOM_SENSITIVITY_def minus_jsnum_def)
  then have "zoomInRange (zoom (handle s ev))" by (simp only: clamp_in_range)
  moreover have "soundBaseline (handle s ev)"
    using assms(2) by (simp add: Wheel handleWheel_def soundBaseline_def)
  ultimately show ?thesis by simp
next
  case (TouchStart ts)
  show ?thesis
  proof (cases "length ts = 2")
    case False
    with assms TouchStart show ?thesis by (simp add: handleTouchStart_def)
  next
    case True
    then obtain a b where ts: "ts = [a, b]"
      by (cases ts rule: getTouchDistance.cases) auto
    with assms(3) TouchStart have "clientX a \<noteq> clientX b \<or> clientY a \<noteq> clientY b"
      by auto
    then obtain d where d: "getTouchDistance [a, b] = Some (Num d)" "0 < d"
      using touch_distance_pos by blast
    have "handle s ev = s\<lparr> pinchRef := Some \<lparr> initialDistance = Num d, initialZoom = zoom s \<rparr> \<rparr>"
      using d(1) by (simp add: TouchStart ts handleTouchStart_def del: getTouchDistance.simps)
    with assms(1) d(2) show ?thesis by (simp add: soundBaseline_def)
  qed
next
  case (TouchMove ts)
  show ?thesis
  proof (cases "length ts = 2 \<and> pinchRef s \<noteq> None")
    case False
    with assms TouchMove show ?thesis
      by (auto simp: handleTouchMove_def split: option.split)
  next
    case True
    then obtain p where p: "pinchRef s = Some p" by auto
    from assms(2) p obtain d0 where d0: "initialDistance p = Num d0" "0 < d0"
      and z0r: "zoomInRange (initialZoom p)"
      by (auto simp: soundBaseline_def split: jsnum.splits)
    obtain z0 where z0: "initialZoom p = Num z0" using zoomInRange_Num [OF z0r] by blast
    obtain d where d: "getTouchDistance ts = Some (Num d)"
      using touch_distance_finite True by blast
    have "zoom (handle s ev) = math_min ZOOM_MAX (math_max ZOOM_MIN (Num (z0 * (d / d0))))"
      using True d0 by (simp add: TouchMove handleTouchMove_def p d z0 Let_def)
    then have "zoomInRange (zoom (handle s ev))" by (simp only: clamp_in_range)
    moreover have "soundBaseline (handle s ev)"
      using assms(2) True
      by (simp add: TouchMove handleTouchMove_def p d Let_def soundBaseline_def)
    ultimately show ?thesis by simp
  qed
next
  case (TouchEnd ts)
  with assms show ?thesis by (simp add: handleTouchEndWithE_def soundBaseline_def)
next
  case (TouchCancel ts)
  with assms show ?thesis by (simp add: handleTouchEndWithE_def soundBaseline_def)
next
  case Reset
  with assms show ?thesis
    by (simp add: handleReset_def soundBaseline_def zoomInRange_def ZOOM_MIN_def ZOOM_MAX_def)
qed

lemma run_keeps_zoom:
  assumes "zoomInRange (zoom s)" and "soundBaseline s" and "\<not> list_ex coincidentStart es"
  shows "zoomInRange (zoom (run s es)) \<and> soundBaseline (run s es)"
  using assms
proof (induction es arbitrary: s)
  case Nil
  then show ?case by (simp add: run_def)
next
  case (Cons ev es)
  from Cons.prems have "zoomInRange (zoom (handle s ev)) \<and> soundBaseline (handle s ev)"
    by (intro handle_keeps_zoom) simp_all
  moreover have "\<not> list_ex coincidentStart es" using Cons.prems(3) by simp
  ultimately have "zoomInRange (zoom (run (handle s ev) es)) \<and> soundBaseline (run (handle s ev) es)"
    using Cons.IH by blast
  then show ?case by (simp add: run_def)
qed

text \<open>
  From the initial state, every sequence of events without a coincident touch-start
  leaves the zoom within [0.5, 3].
\<close>

lemma zoom_clamped_without_coincident_start:
  "\<not> list_ex coincidentStart es \<Longrightarrow> zoomInRange (zoom (run initialState es))"
proof -
  assume "\<not> list_ex coincidentStart es"
  moreover have "zoomInRange (zoom initialState)"
    by (simp add: initialState_def zoomInRange_def ZOOM_MIN_def ZOOM_MAX_def)
  moreover have "soundBaseline initialState"
    by (simp add: initialState_def soundBaseline_def)
  ultimately show ?thesis using run_keeps_zoom by blast
qed

text \<open>
  Claim C8. A pointer-down with a button other than the primary one leaves the state as
  it is, and so does a pointer-move without a drag anchor. The events of the rotate-drag
  track never change the zoom; the wheel and touch events never change the rotation.
\<close>

theorem gesture_frame:
  "(button e \<noteq> 0 \<longrightarrow> handle s (PointerDown e) = s)
   \<and> (dragRef s = None \<longrightarrow> handle s (PointerMove e) = s)
   \<and> zoom (handle s (PointerDown e)) = zoom s
   \<and> zoom (handle s (PointerMove e)) = zoom s
   \<and> zoom (handle s PointerUp) = zoom s
   \<and> zoom (handle s PointerLeave) = zoom s
   \<and> rotation (handle s (Wheel deltaY)) = rotation s
   \<and> rotation (handle s (TouchStart ts)) = rotation s
   \<and> rotation (handle s (TouchMove ts)) = rotation s
   \<and> rotation (handle s (TouchEnd ts)) = rotation s
   \<and> rotation (handle s (TouchCancel ts)) = rotation s"
  by (simp add: handlePointerDown_def handlePointerMove_def handlePointerUp_def handleWheel_def
      handleTouchStart_def handleTouchMove_def handleTouchEndWithE_def Let_def
      split: option.split)

text \<open>Claim C8 on the initial state: a secondary-button press and a move without anchor.\<close>

theorem gesture_frame_witness:
  "handle initialState (PointerDown \<lparr> button = 2, angleFromEvent = Num 10 \<rparr>) = initialState
   \<and> handle initialState (PointerMove \<lparr> button = 0, angleFromEvent = Num 10 \<rparr>) = initialState"
  using gesture_frame [of "\<lparr> button = 2, angleFromEvent = Num 10 \<rparr>" initialState]
        gesture_frame [of "\<lparr> button = 0, angleFromEvent = Num 10 \<rparr>" initialState]
  by (simp add: initialState_def)

section \<open>The tooltip positioner\<close>





section \<open>The flattener\<close>

subsection \<open>Arithmetic on finite numbers\<close>

lemma step_div: "0 < m \<Longrightarrow> Num st / num_of_nat m = Num (st / real m)"
  by (simp add: num_of_nat_def)


subsection \<open>The shape of the three loops\<close>










subsection \<open>Finite angles\<close>

lemma leafSegment_finite:
  "is_finite (startAngle (leafSegment catId subId (Num b) (Num l) (Num sg) x))
   \<and> is_finite (endAngle (leafSegment catId subId (Num b) (Num l) (Num sg) x))"
  by (cases x) (simp add: leafSegment_def Let_def num_of_nat_def is_finite_def)

lemma subSegments_finite:
  assumes "c \<in> set (subSegments catId (Num a) (Num ss) (Num sg) x)"
  shows "is_finite (startAngle c) \<and> is_finite (endAngle c)"
proof -
  obtain j subId sub where x: "x = (j, subId, sub)" by (cases x)
  have b0: "Num a + num_of_nat j * Num ss * Num sg = Num (a + real j * ss * sg)"
    by (simp add: num_of_nat_def)
  show ?thesis
  proof (cases "c = hd (subSegments catId (Num a) (Num ss) (Num sg) x)")
    case True
    then show ?thesis
      by (simp add: x subSegments_def Let_def num_of_nat_def is_finite_def)
  next
    case False
    with assms obtain leaves where leaves: "children sub = Some leaves"
      and c: "c \<in> set (map (leafSegment catId subId (Num (a + real j * ss * sg))
                            (Num ss / num_of_nat (length leaves)) (Num sg))
                       (enumerate 0 leaves))"
      by (cases "children sub") (auto simp: x subSegments_def Let_def b0)
    from c have "0 < length leaves" by (cases leaves) auto
    then have "Num ss / num_of_nat (length leaves) = Num (ss / real (length leaves))"
      by (rule step_div)
    with c show ?thesis using leafSegment_finite by auto
  qed
qed

lemma catSegments_finite:
  assumes "c \<in> set (catSegments (Num s) (Num st) (Num sg) x)"
  shows "is_finite (startAngle c) \<and> is_finite (endAngle c)"
proof -
  obtain i catId cat where x: "x = (i, catId, cat)" by (cases x)
  have a0: "Num s + num_of_nat i * Num st * Num sg = Num (s + real i * st * sg)"
    by (simp add: num_of_nat_def)
  show ?thesis
  proof (cases "c = hd (catSegments (Num s) (Num st) (Num sg) x)")
    case True
    then show ?thesis
      by (simp add: x catSegments_def Let_def num_of_nat_def is_finite_def)
  next
    case False
    with assms obtain subs where subs: "children cat = Some subs"
      and c: "c \<in> set (concat (map (subSegments catId (Num (s + real i * st * sg))
                                    (Num st / num_of_nat (length subs)) (Num sg))
                               (enumerate 0 subs)))"
      by (cases "children cat") (auto simp: x catSegments_def Let_def a0)
    from c have "0 < length subs" by (cases subs) auto
    then have "Num st / num_of_nat (length subs) = Num (st / real (length subs))"
      by (rule step_div)
    with c show ?thesis using subSegments_finite by auto
  qed
qed

text \<open>
  Every segment the flattener produces, in either direction, has finite angles: a step
  that was divided by a zero count is never used, since the loop over an empty key list
  pushes nothing.
\<close>

lemma flatten_angles_finite:
  assumes "c \<in> set (flattenToSegments data (Num s) clockwise)"
  shows "is_finite (startAngle c) \<and> is_finite (endAngle c)"
proof -
  define sg :: real where "sg = (if clockwise then 1 else - 1)"
  have sign: "(if clockwise then Num 1 else Num (- 1)) = Num sg"
    by (simp add: sg_def)
  from assms obtain x where x: "x \<in> set (enumerate 0 data)"
    and c: "c \<in> set (catSegments (Num s) (Num 360 / num_of_nat (length data)) (Num sg) x)"
    unfolding flattenToSegments_def Let_def sign by auto
  from x have "0 < length data" by (cases data) auto
  then have "Num 360 / num_of_nat (length data) = Num (360 / real (length data))"
    by (rule step_div)
  with c show ?thesis using catSegments_finite by simp
qed

subsection \<open>Lists of blocks\<close>







subsection \<open>Parents precede their children\<close>
















subsection \<open>Children partition their parent\<close>



























end
